theory Spec2Isabelle
  imports Complex_Main "HOL-Library.Log_Nat"
begin

section \<open>Data model of the tax calculator\<close>

text \<open>
  The calculator is written in TypeScript; every quantity is a \<^verbatim>\<open>number\<close>, an IEEE
  double. The value of a double is a rational (\<^typ>\<open>rat\<close>). The calculator is modelled
  twice: first in exact arithmetic, the operations of the source kept one by one without
  rounding, and then, in the section on double precision, with every operation rounded to
  the nearest double as the program does. Where a statement depends on the rounding it is
  made about the second model. An optional field (\<^verbatim>\<open>x?: number\<close>) is a
  \<^typ>\<open>rat option\<close>, \<open>None\<close> standing for \<^verbatim>\<open>undefined\<close>.

  String-literal union types are datatypes whose constructors carry the literals' names.
  An object used as a table from such literals to numbers
  (\<^verbatim>\<open>Record<EngineType, number>\<close>) is a function on the datatype. Where two interfaces of the
  source share a field name, the record of the interface that the calculation reads keeps the
  name and the other one gets a suffix or prefix.
\<close>

datatype EngineType = combustion | hybrid_plugin | electric
datatype FinancingMethod = cash | leasing
datatype UsageType = mixed | full_business
datatype ZusType = ulga_na_start | preferencyjny | maly_plus | duzy
datatype TaxationForm = liniowy | skala | ryczalt
datatype Industry = it_services | trade | services_general

text \<open>The one exception the calculator throws:
  \<^verbatim>\<open>new Error('Leasing parameters required for leasing financing method')\<close>.\<close>

datatype error = LeasingParametersRequired

definition CAR_DEPRECIATION_LIMITS :: "EngineType \<Rightarrow> rat" where
  "CAR_DEPRECIATION_LIMITS e =
     (case e of combustion \<Rightarrow> 100000 | hybrid_plugin \<Rightarrow> 150000 | electric \<Rightarrow> 225000)"

definition HEALTH_INSURANCE :: "TaxationForm \<Rightarrow> rat" where
  "HEALTH_INSURANCE f = (case f of liniowy \<Rightarrow> 0.049 | skala \<Rightarrow> 0.09 | ryczalt \<Rightarrow> 0.049)"

definition RYCZALT_RATES :: "Industry \<Rightarrow> rat" where
  "RYCZALT_RATES i = (case i of it_services \<Rightarrow> 0.12 | trade \<Rightarrow> 0.03 | services_general \<Rightarrow> 0.085)"

text \<open>The four entries of \<^verbatim>\<open>TAX_SCALE_BRACKETS\<close>.\<close>

definition tax_free_allowance :: rat where "tax_free_allowance = 30000"
definition first_bracket_rate :: rat where "first_bracket_rate = 0.12"
definition first_bracket_limit :: rat where "first_bracket_limit = 120000"
definition second_bracket_rate :: rat where "second_bracket_rate = 0.32"

record CarInvestment =
  name :: string
  carPriceNetto :: rat
  engineType :: EngineType
  financingMethod :: FinancingMethod
  usageType :: UsageType
  leasingInitialPaymentPercent :: "rat option"
  leasingMonths :: "rat option"
  leasingBuyoutPercent :: "rat option"
  monthOfPurchase :: rat

record EquipmentInvestment =
  equipmentName :: string
  costNetto :: rat
  equipmentMonthOfPurchase :: rat

text \<open>\<^verbatim>\<open>TaxYearConfigInput\<close> of the tax calculator. The calculator reads the three health
  insurance fields only; the six fields it shares with the contribution calculator's
  \<^verbatim>\<open>TaxYearConfig\<close> carry the suffix \<open>Input\<close>.\<close>

record TaxYearConfigInput =
  yearInput :: rat
  minimumWageGrossInput :: rat
  averageWagePrognosisInput :: rat
  averageWageQ4PreviousYearInput :: rat
  retirementRate :: rat
  disabilityRate :: rat
  accidentRate :: rat
  sicknessRate :: rat
  workFundRateInput :: rat
  solidarityFundRateInput :: rat
  healthInsuranceRateSkala :: rat
  healthInsuranceRateLiniowy :: rat
  healthInsuranceLimitLinear :: rat

record ScenarioConfig =
  yearlyRevenueNetto :: rat
  yearlyFixedCosts :: rat
  vatPayer :: bool
  vatRateMixed :: rat
  zusType :: ZusType
  carInvestments :: "CarInvestment list"
  equipmentInvestments :: "EquipmentInvestment list"
  taxYearConfig :: "TaxYearConfigInput option"

record Breakdown =
  carDepreciationDeduction :: rat
  equipmentDepreciationDeduction :: rat
  vatBenefit :: rat

record TaxResult =
  taxationForm :: TaxationForm
  grossRevenue :: rat
  totalCosts :: rat
  taxableIncome :: rat
  incomeTax :: rat
  healthInsurance :: rat
  zusTotal :: rat
  netCashInHand :: rat
  breakdown :: Breakdown

text \<open>The object \<^verbatim>\<open>{ ryczalt, liniowy, skala }\<close> that \<^verbatim>\<open>compareAll\<close> returns.\<close>

record ComparisonResult =
  ryczaltResult :: TaxResult
  liniowyResult :: TaxResult
  skalaResult :: TaxResult

section \<open>The tax calculator\<close>

text \<open>JavaScript's \<^verbatim>\<open>!x\<close> on an optional number: true for \<^verbatim>\<open>undefined\<close> and for \<open>0\<close>.\<close>

definition falsy :: "rat option \<Rightarrow> bool" where
  "falsy x = (case x of None \<Rightarrow> True | Some v \<Rightarrow> v = 0)"

text \<open>Reading an optional number after a guard has established that it is not falsy.\<close>

definition present :: "rat option \<Rightarrow> rat" where
  "present x = (case x of None \<Rightarrow> 0 | Some v \<Rightarrow> v)"

text \<open>\<^verbatim>\<open>getZUSMonthly\<close>: the table is local to the function and the configuration is not
  read.\<close>

definition getZUSMonthly :: "ZusType \<Rightarrow> TaxYearConfigInput option \<Rightarrow> rat" where
  "getZUSMonthly z config =
     (case z of ulga_na_start \<Rightarrow> 0 | preferencyjny \<Rightarrow> 650 | maly_plus \<Rightarrow> 1700 | duzy \<Rightarrow> 1900)"

definition getHealthInsuranceRates :: "TaxYearConfigInput option \<Rightarrow> TaxationForm \<Rightarrow> rat" where
  "getHealthInsuranceRates config =
     (case config of
        Some c \<Rightarrow> (\<lambda>f. case f of
                      liniowy \<Rightarrow> healthInsuranceRateLiniowy c
                    | skala \<Rightarrow> healthInsuranceRateSkala c
                    | ryczalt \<Rightarrow> healthInsuranceRateLiniowy c)
      | None \<Rightarrow> HEALTH_INSURANCE)"

definition getHealthInsuranceLimit :: "TaxYearConfigInput option \<Rightarrow> rat" where
  "getHealthInsuranceLimit config =
     (case config of Some c \<Rightarrow> healthInsuranceLimitLinear c | None \<Rightarrow> 11000)"

text \<open>
  \<^verbatim>\<open>calculateCarDepreciation\<close>. The throw is the \<open>Inl\<close> branch. In the leasing branch the
  source divides the limit by the price: for a price of \<open>0\<close> JavaScript yields
  \<^verbatim>\<open>Infinity\<close> and \<^verbatim>\<open>Math.min(1, Infinity)\<close> is \<open>1\<close>, which the model writes out. The
  division by \<^verbatim>\<open>leasingMonths\<close> is behind the guard that rejects \<open>0\<close>.
\<close>

definition calculateCarDepreciation :: "CarInvestment \<Rightarrow> error + rat" where
  "calculateCarDepreciation car =
     (let limit = CAR_DEPRECIATION_LIMITS (engineType car) in
      if financingMethod car = cash then
        (let depreciableAmount = min (carPriceNetto car) limit;
             monthsInYear = 13 - monthOfPurchase car
         in Inr ((depreciableAmount * 0.20 * monthsInYear) / 12))
      else if falsy (leasingMonths car) \<or> falsy (leasingInitialPaymentPercent car)
              \<or> falsy (leasingBuyoutPercent car) then
        Inl LeasingParametersRequired
      else
        (let totalLeasingCost = carPriceNetto car;
             initialPayment =
               totalLeasingCost * (present (leasingInitialPaymentPercent car) / 100);
             buyout = totalLeasingCost * (present (leasingBuyoutPercent car) / 100);
             capitalPart = totalLeasingCost - initialPayment - buyout;
             deductibleRatio =
               (if carPriceNetto car = 0 then 1 else min 1 (limit / carPriceNetto car));
             monthsInYear = min (13 - monthOfPurchase car) (present (leasingMonths car));
             monthlyCapital = capitalPart / present (leasingMonths car);
             yearlyCapitalDeductible = monthlyCapital * monthsInYear * deductibleRatio;
             initialPaymentDeductible = initialPayment * deductibleRatio;
             interestRate = 0.05;
             yearlyInterest = (capitalPart * interestRate * monthsInYear) / 12
         in Inr (initialPaymentDeductible + yearlyCapitalDeductible + yearlyInterest)))"

definition calculateCarVATBenefit :: "CarInvestment \<Rightarrow> rat" where
  "calculateCarVATBenefit car =
     (let vatRate = 0.23;
          vatAmount = carPriceNetto car * vatRate
      in if usageType car = full_business then vatAmount else vatAmount * 0.50)"

definition calculateEquipmentDepreciation :: "EquipmentInvestment \<Rightarrow> rat" where
  "calculateEquipmentDepreciation equipment =
     (let monthsInYear = 13 - equipmentMonthOfPurchase equipment
      in (costNetto equipment * 0.30 * monthsInYear) / 12)"

definition calculateYearlyZUS :: "ZusType \<Rightarrow> TaxYearConfigInput option \<Rightarrow> rat" where
  "calculateYearlyZUS z config = (let monthlyRate = getZUSMonthly z config in monthlyRate * 12)"

text \<open>
  The three regime calculators repeat the same loops word for word; each loop is one
  function here. \<^verbatim>\<open>carDepreciation += this.calculateCarDepreciation(car)\<close> inside
  \<^verbatim>\<open>forEach\<close> stops at the first vehicle that throws.
\<close>

fun sumCarDepreciation :: "rat \<Rightarrow> CarInvestment list \<Rightarrow> error + rat" where
  "sumCarDepreciation carDepreciation [] = Inr carDepreciation"
| "sumCarDepreciation carDepreciation (car # cars) =
     (case calculateCarDepreciation car of
        Inl e \<Rightarrow> Inl e
      | Inr d \<Rightarrow> sumCarDepreciation (carDepreciation + d) cars)"

definition sumEquipmentDepreciation :: "EquipmentInvestment list \<Rightarrow> rat" where
  "sumEquipmentDepreciation eqs =
     foldl (\<lambda>equipmentDepreciation eq. equipmentDepreciation + calculateEquipmentDepreciation eq)
       0 eqs"

definition sumVatBenefit :: "ScenarioConfig \<Rightarrow> rat" where
  "sumVatBenefit config =
     (if vatPayer config then
        foldl (\<lambda>vatBenefit eq. vatBenefit + costNetto eq * 0.23 * vatRateMixed config)
          (foldl (\<lambda>vatBenefit car. vatBenefit + calculateCarVATBenefit car * vatRateMixed config)
             0 (carInvestments config))
          (equipmentInvestments config)
      else 0)"

definition calculateRyczalt :: "ScenarioConfig \<Rightarrow> TaxResult" where
  "calculateRyczalt config =
     (let ryczaltRate = RYCZALT_RATES it_services;
          grossRevenue = yearlyRevenueNetto config;
          incomeTax = grossRevenue * ryczaltRate;
          healthInsurance = 6000;
          zusTotal = calculateYearlyZUS (zusType config) (taxYearConfig config);
          vatBenefit = sumVatBenefit config;
          netCashInHand = grossRevenue - incomeTax - healthInsurance - zusTotal + vatBenefit
      in \<lparr> taxationForm = ryczalt,
           grossRevenue = grossRevenue,
           totalCosts = 0,
           taxableIncome = grossRevenue,
           incomeTax = incomeTax,
           healthInsurance = healthInsurance,
           zusTotal = zusTotal,
           netCashInHand = netCashInHand,
           breakdown = \<lparr> carDepreciationDeduction = 0,
                         equipmentDepreciationDeduction = 0,
                         vatBenefit = vatBenefit \<rparr> \<rparr>)"

definition calculateLiniowy :: "ScenarioConfig \<Rightarrow> error + TaxResult" where
  "calculateLiniowy config =
     (let grossRevenue = yearlyRevenueNetto config;
          healthInsuranceRates = getHealthInsuranceRates (taxYearConfig config);
          healthInsuranceLimit = getHealthInsuranceLimit (taxYearConfig config)
      in case sumCarDepreciation 0 (carInvestments config) of
           Inl e \<Rightarrow> Inl e
         | Inr carDepreciation \<Rightarrow>
            (let equipmentDepreciation = sumEquipmentDepreciation (equipmentInvestments config);
                 totalCosts = yearlyFixedCosts config + carDepreciation + equipmentDepreciation;
                 taxableIncome = max 0 (grossRevenue - totalCosts);
                 incomeTax = taxableIncome * 0.19;
                 healthInsuranceBase = taxableIncome;
                 healthInsurance =
                   min (healthInsuranceBase * healthInsuranceRates liniowy) healthInsuranceLimit;
                 zusTotal = calculateYearlyZUS (zusType config) (taxYearConfig config);
                 vatBenefit = sumVatBenefit config;
                 netCashInHand =
                   grossRevenue - totalCosts - incomeTax - healthInsurance - zusTotal + vatBenefit
             in Inr \<lparr> taxationForm = liniowy,
                      grossRevenue = grossRevenue,
                      totalCosts = totalCosts,
                      taxableIncome = taxableIncome,
                      incomeTax = incomeTax,
                      healthInsurance = healthInsurance,
                      zusTotal = zusTotal,
                      netCashInHand = netCashInHand,
                      breakdown = \<lparr> carDepreciationDeduction = carDepreciation,
                                    equipmentDepreciationDeduction = equipmentDepreciation,
                                    vatBenefit = vatBenefit \<rparr> \<rparr>))"

text \<open>The two-bracket tax of \<^verbatim>\<open>calculateSkala\<close>, the \<^verbatim>\<open>if\<close>/\<^verbatim>\<open>else\<close> that assigns
  \<^verbatim>\<open>incomeTax\<close>.\<close>

definition progressiveTax :: "rat \<Rightarrow> rat" where
  "progressiveTax taxable =
     (if taxable \<le> first_bracket_limit then taxable * first_bracket_rate
      else (let firstBracketTax = first_bracket_limit * first_bracket_rate;
                secondBracketIncome = taxable - first_bracket_limit;
                secondBracketTax = secondBracketIncome * second_bracket_rate
            in firstBracketTax + secondBracketTax))"

definition calculateSkala :: "ScenarioConfig \<Rightarrow> error + TaxResult" where
  "calculateSkala config =
     (let grossRevenue = yearlyRevenueNetto config;
          healthInsuranceRates = getHealthInsuranceRates (taxYearConfig config)
      in case sumCarDepreciation 0 (carInvestments config) of
           Inl e \<Rightarrow> Inl e
         | Inr carDepreciation \<Rightarrow>
            (let equipmentDepreciation = sumEquipmentDepreciation (equipmentInvestments config);
                 totalCosts = yearlyFixedCosts config + carDepreciation + equipmentDepreciation;
                 income = max 0 (grossRevenue - totalCosts);
                 taxableIncome = max 0 (income - tax_free_allowance);
                 incomeTax = progressiveTax taxableIncome;
                 healthInsurance = income * healthInsuranceRates skala;
                 zusTotal = calculateYearlyZUS (zusType config) (taxYearConfig config);
                 vatBenefit = sumVatBenefit config;
                 netCashInHand =
                   grossRevenue - totalCosts - incomeTax - healthInsurance - zusTotal + vatBenefit
             in Inr \<lparr> taxationForm = skala,
                      grossRevenue = grossRevenue,
                      totalCosts = totalCosts,
                      taxableIncome = taxableIncome,
                      incomeTax = incomeTax,
                      healthInsurance = healthInsurance,
                      zusTotal = zusTotal,
                      netCashInHand = netCashInHand,
                      breakdown = \<lparr> carDepreciationDeduction = carDepreciation,
                                    equipmentDepreciationDeduction = equipmentDepreciation,
                                    vatBenefit = vatBenefit \<rparr> \<rparr>))"

text \<open>\<^verbatim>\<open>compareAll\<close> evaluates the three properties of the object literal in order; an
  exception in one of them leaves no object.\<close>

definition compareAll :: "ScenarioConfig \<Rightarrow> error + ComparisonResult" where
  "compareAll config =
     (let r = calculateRyczalt config in
      case calculateLiniowy config of
        Inl e \<Rightarrow> Inl e
      | Inr l \<Rightarrow>
         (case calculateSkala config of
            Inl e \<Rightarrow> Inl e
          | Inr s \<Rightarrow> Inr \<lparr> ryczaltResult = r, liniowyResult = l, skalaResult = s \<rparr>))"

section \<open>The contribution calculator\<close>

text \<open>\<^verbatim>\<open>TaxYearConfig\<close> of the contribution calculator, with its nested objects. The keys
  \<^verbatim>\<open>skala\<close>, \<^verbatim>\<open>liniowy\<close> and \<^verbatim>\<open>linear\<close> of the nested objects are the fields
  \<open>skalaRate\<close>, \<open>liniowyRate\<close> and \<open>linearLimit\<close>.\<close>

record SocialSecurityRates =
  retirement :: rat
  disability :: rat
  accident :: rat
  sickness :: rat

record HealthInsuranceRate =
  skalaRate :: rat
  liniowyRate :: rat

record HealthInsuranceLimits =
  linearLimit :: rat

record TaxYearConfig =
  year :: rat
  minimumWageGross :: rat
  averageWagePrognosis :: rat
  averageWageQ4PreviousYear :: rat
  socialSecurityRates :: SocialSecurityRates
  workFundRate :: rat
  solidarityFundRate :: rat
  healthInsuranceRate :: HealthInsuranceRate
  minHealthInsuranceLinear :: rat
  healthInsuranceLimits :: HealthInsuranceLimits

text \<open>\<^verbatim>\<open>DEFAULT_2026_CONFIG\<close>, after the assignment that sets
  \<^verbatim>\<open>minHealthInsuranceLinear\<close> to the minimum wage times \<open>0.09\<close>.\<close>

definition DEFAULT_2026_CONFIG :: TaxYearConfig where
  "DEFAULT_2026_CONFIG =
     \<lparr> year = 2026,
       minimumWageGross = 4626,
       averageWagePrognosis = 7286,
       averageWageQ4PreviousYear = 7000,
       socialSecurityRates =
         \<lparr> retirement = 0.1952, disability = 0.08, accident = 0.0167, sickness = 0.0245 \<rparr>,
       workFundRate = 0.0245,
       solidarityFundRate = 0.0245,
       healthInsuranceRate = \<lparr> skalaRate = 0.09, liniowyRate = 0.049 \<rparr>,
       minHealthInsuranceLinear = 4626 * 0.09,
       healthInsuranceLimits = \<lparr> linearLimit = 11600 \<rparr> \<rparr>"

text \<open>\<^verbatim>\<open>ContributionInput\<close>; its \<^verbatim>\<open>taxationForm\<close> and \<^verbatim>\<open>zusType\<close> are the fields
  \<open>taxationFormInput\<close> and \<open>zusTypeInput\<close>.\<close>

record ContributionInput =
  taxationFormInput :: TaxationForm
  zusTypeInput :: ZusType
  monthlyRevenue :: rat
  monthlyCosts :: rat
  monthlySocialSecurityBase :: "rat option"
  voluntarySickness :: bool
  yearlyRevenueToDate :: "rat option"

record HealthInsuranceResult =
  amount :: rat
  deductibleFromIncome :: rat
  deductibleFromTax :: rat

text \<open>\<^verbatim>\<open>x && x <= bound\<close> on an optional number: false for \<^verbatim>\<open>undefined\<close> and for \<open>0\<close>,
  the comparison otherwise.\<close>

definition truthyAndAtMost :: "rat option \<Rightarrow> rat \<Rightarrow> bool" where
  "truthyAndAtMost x bound = (case x of None \<Rightarrow> False | Some v \<Rightarrow> v \<noteq> 0 \<and> v \<le> bound)"

definition calculateHealthInsurance ::
  "ContributionInput \<Rightarrow> TaxYearConfig \<Rightarrow> rat \<Rightarrow> HealthInsuranceResult" where
  "calculateHealthInsurance input config monthlyIncome =
     (if taxationFormInput input = skala then
        (let base = max monthlyIncome (minimumWageGross config);
             amount = base * skalaRate (healthInsuranceRate config)
         in \<lparr> amount = amount, deductibleFromIncome = amount, deductibleFromTax = 0 \<rparr>)
      else if taxationFormInput input = liniowy then
        (let base = max monthlyIncome (minimumWageGross config);
             amount = max (base * liniowyRate (healthInsuranceRate config))
                          (minHealthInsuranceLinear config)
         in \<lparr> amount = amount, deductibleFromIncome = amount, deductibleFromTax = 0 \<rparr>)
      else if taxationFormInput input = ryczalt then
        (let base = averageWageQ4PreviousYear config;
             rateMultiplier =
               (if truthyAndAtMost (yearlyRevenueToDate input) 60000 then 0.6
                else if truthyAndAtMost (yearlyRevenueToDate input) 300000 then 1.0
                else 1.8);
             amount = base * 0.09 * rateMultiplier
         in \<lparr> amount = amount, deductibleFromIncome = amount * 0.5, deductibleFromTax = 0 \<rparr>)
      else \<lparr> amount = 0, deductibleFromIncome = 0, deductibleFromTax = 0 \<rparr>)"

section \<open>The tax calculator in double precision\<close>

text \<open>
  A \<^verbatim>\<open>number\<close> of the program is an IEEE 754 double, and every arithmetic operation
  returns the double nearest to the exact result, ties going to the even significand. The
  definitions of this section repeat the calculator with that rounding after every
  operation, in the order in which the source associates them; a decimal literal of the
  source is the double nearest to it. They are what the program computes, the definitions
  above are the same expressions in exact arithmetic.

  A double other than zero is \<open>m * 2 ^ (e - 52)\<close> with a significand
  \<open>2 ^ 52 \<le> m < 2 ^ 53\<close>. The model keeps the exponent \<open>e\<close> unbounded: overflow to
  infinity, subnormal numbers, the sign of zero and \<^verbatim>\<open>NaN\<close> are left out, which concerns
  magnitudes of \<open>2 ^ 1024\<close> and more or below \<open>2 ^ - 1022\<close> only.
\<close>

text \<open>The exponent \<open>e\<close> of a positive rational \<open>a\<close>: \<open>2 ^ e \<le> a < 2 ^ (e + 1)\<close>.\<close>

definition exponent :: "rat \<Rightarrow> int" where
  "exponent a = (if 1 \<le> a then bitlen \<lfloor>a\<rfloor> - 1 else - bitlen (\<lceil>1 / a\<rceil> - 1))"

definition round_half_even :: "rat \<Rightarrow> int" where
  "round_half_even n =
     (let f = \<lfloor>n\<rfloor>;
          r = n - of_int f
      in if r < 1 / 2 then f else if 1 / 2 < r then f + 1 else if even f then f else f + 1)"

definition round_double :: "rat \<Rightarrow> rat" where
  "round_double x =
     (if x = 0 then 0
      else (let ulp = 2 powi (exponent \<bar>x\<bar> - 52)
            in sgn x * of_int (round_half_even (\<bar>x\<bar> / ulp)) * ulp))"

definition add_double :: "rat \<Rightarrow> rat \<Rightarrow> rat" where
  "add_double a b = round_double (a + b)"

definition sub_double :: "rat \<Rightarrow> rat \<Rightarrow> rat" where
  "sub_double a b = round_double (a - b)"

definition mul_double :: "rat \<Rightarrow> rat \<Rightarrow> rat" where
  "mul_double a b = round_double (a * b)"

definition div_double :: "rat \<Rightarrow> rat \<Rightarrow> rat" where
  "div_double a b = round_double (a / b)"



definition calculateCarDepreciation_double :: "CarInvestment \<Rightarrow> error + rat" where
  "calculateCarDepreciation_double car =
     (let limit = CAR_DEPRECIATION_LIMITS (engineType car) in
      if financingMethod car = cash then
        (let depreciableAmount = min (carPriceNetto car) limit;
             monthsInYear = sub_double 13 (monthOfPurchase car)
         in Inr (div_double
                   (mul_double (mul_double depreciableAmount (round_double 0.20)) monthsInYear)
                   12))
      else if falsy (leasingMonths car) \<or> falsy (leasingInitialPaymentPercent car)
              \<or> falsy (leasingBuyoutPercent car) then
        Inl LeasingParametersRequired
      else
        (let totalLeasingCost = carPriceNetto car;
             initialPayment =
               mul_double totalLeasingCost
                 (div_double (present (leasingInitialPaymentPercent car)) 100);
             buyout =
               mul_double totalLeasingCost (div_double (present (leasingBuyoutPercent car)) 100);
             capitalPart = sub_double (sub_double totalLeasingCost initialPayment) buyout;
             deductibleRatio =
               (if carPriceNetto car = 0 then 1
                else min 1 (div_double limit (carPriceNetto car)));
             monthsInYear =
               min (sub_double 13 (monthOfPurchase car)) (present (leasingMonths car));
             monthlyCapital = div_double capitalPart (present (leasingMonths car));
             yearlyCapitalDeductible =
               mul_double (mul_double monthlyCapital monthsInYear) deductibleRatio;
             initialPaymentDeductible = mul_double initialPayment deductibleRatio;
             interestRate = round_double 0.05;
             yearlyInterest =
               div_double (mul_double (mul_double capitalPart interestRate) monthsInYear) 12
         in Inr (add_double (add_double initialPaymentDeductible yearlyCapitalDeductible)
                   yearlyInterest)))"













section \<open>Concrete inputs\<close>

text \<open>The row for 2026 that \<^verbatim>\<open>schema.sql\<close> seeds into \<^verbatim>\<open>tax_year_configs\<close>, as the
  \<^verbatim>\<open>TaxYearConfigInput\<close> the calculate endpoint builds from it.\<close>

definition cfg_2026 :: TaxYearConfigInput where
  "cfg_2026 =
     \<lparr> yearInput = 2026,
       minimumWageGrossInput = 4626,
       averageWagePrognosisInput = 7286,
       averageWageQ4PreviousYearInput = 7000,
       retirementRate = 0.1952,
       disabilityRate = 0.08,
       accidentRate = 0.0167,
       sicknessRate = 0.0245,
       workFundRateInput = 0.0245,
       solidarityFundRateInput = 0.0245,
       healthInsuranceRateSkala = 0.09,
       healthInsuranceRateLiniowy = 0.049,
       healthInsuranceLimitLinear = 11600 \<rparr>"


text \<open>The scenario of the end-to-end example: revenue 180000, fixed costs 36000, class
  \<open>maly_plus\<close>, VAT payer, full VAT recovery, no investments. The rate configuration is a
  parameter: \<open>Some cfg_2026\<close> is the seeded table, \<open>None\<close> makes the calculator fall back
  on its built-in 2026 constants.\<close>

definition scenario_2026 :: "TaxYearConfigInput option \<Rightarrow> ScenarioConfig" where
  "scenario_2026 tc =
     \<lparr> yearlyRevenueNetto = 180000,
       yearlyFixedCosts = 36000,
       vatPayer = True,
       vatRateMixed = 1.0,
       zusType = maly_plus,
       carInvestments = [],
       equipmentInvestments = [],
       taxYearConfig = tc \<rparr>"

definition car_cash_example :: CarInvestment where
  "car_cash_example =
     \<lparr> name = ''combustion car'',
       carPriceNetto = 150000,
       engineType = combustion,
       financingMethod = cash,
       usageType = mixed,
       leasingInitialPaymentPercent = None,
       leasingMonths = None,
       leasingBuyoutPercent = None,
       monthOfPurchase = 1 \<rparr>"

definition car_lease_example :: CarInvestment where
  "car_lease_example =
     \<lparr> name = ''leased car'',
       carPriceNetto = 200000,
       engineType = combustion,
       financingMethod = leasing,
       usageType = full_business,
       leasingInitialPaymentPercent = Some 10,
       leasingMonths = Some 48,
       leasingBuyoutPercent = Some 1,
       monthOfPurchase = 7 \<rparr>"

definition laptop_example :: EquipmentInvestment where
  "laptop_example =
     \<lparr> equipmentName = ''laptop'', costNetto = 10000, equipmentMonthOfPurchase = 1 \<rparr>"

text \<open>The example scenario with the seeded 2026 table, a list of vehicles and one piece of
  equipment.\<close>

definition scenario_with_cars :: "CarInvestment list \<Rightarrow> ScenarioConfig" where
  "scenario_with_cars cars =
     (scenario_2026 (Some cfg_2026))
       \<lparr> carInvestments := cars, equipmentInvestments := [laptop_example] \<rparr>"


definition contribution_input_example :: "rat option \<Rightarrow> ContributionInput" where
  "contribution_input_example revenueToDate =
     \<lparr> taxationFormInput = ryczalt,
       zusTypeInput = maly_plus,
       monthlyRevenue = 15000,
       monthlyCosts = 3000,
       monthlySocialSecurityBase = None,
       voluntarySickness = False,
       yearlyRevenueToDate = revenueToDate \<rparr>"

section \<open>The flat-rate health insurance formula in the words of the specification\<close>

text \<open>
  The specification describes the health insurance of the flat-rate regime as the prior-year
  fourth-quarter average wage times nine percent times a multiplier that depends on the
  cumulative yearly revenue: at most 60000 gives 0.6, at most 300000 gives 1.0, anything
  above gives 1.8. This definition follows those words; it is compared with what
  \<open>calculateRyczalt\<close> and \<open>calculateHealthInsurance\<close> compute.
\<close>

definition specFlatRateHealthInsurance :: "rat \<Rightarrow> rat \<Rightarrow> rat" where
  "specFlatRateHealthInsurance wageQ4 revenue =
     wageQ4 * 0.09 * (if revenue \<le> 60000 then 0.6 else if revenue \<le> 300000 then 1.0 else 1.8)"

section \<open>Predicates on the vehicles of a scenario\<close>

text \<open>A lease-financed vehicle one of whose three lease parameters is absent.\<close>

definition leaseParameterAbsent :: "CarInvestment \<Rightarrow> bool" where
  "leaseParameterAbsent car =
     (financingMethod car = leasing
      \<and> (leasingMonths car = None \<or> leasingInitialPaymentPercent car = None
           \<or> leasingBuyoutPercent car = None))"

text \<open>A vehicle that, if lease-financed, carries all three lease parameters.\<close>

definition leaseParametersPresent :: "CarInvestment \<Rightarrow> bool" where
  "leaseParametersPresent car =
     (financingMethod car = cash
      \<or> (leasingMonths car \<noteq> None \<and> leasingInitialPaymentPercent car \<noteq> None
           \<and> leasingBuyoutPercent car \<noteq> None))"

text \<open>A vehicle that, if lease-financed, carries all three lease parameters with values
  other than zero.\<close>

definition leaseParametersNonZero :: "CarInvestment \<Rightarrow> bool" where
  "leaseParametersNonZero car =
     (financingMethod car = cash
      \<or> (leasingMonths car \<notin> {None, Some 0}
           \<and> leasingInitialPaymentPercent car \<notin> {None, Some 0}
           \<and> leasingBuyoutPercent car \<notin> {None, Some 0}))"

section \<open>Rounding to a double\<close>




text \<open>The doubles nearest to one tenth and to minus one third, and two ties going to the
  even significand.\<close>

lemma round_double_examples:
  "round_double (1 / 10) = 3602879701896397 / 2 ^ 55"
  "round_double (- (1 / 3)) = - (6004799503160661 / 2 ^ 54)"
  "round_double (2 ^ 53 + 1) = 2 ^ 53"
  "round_double (2 ^ 53 + 3) = 2 ^ 53 + 4"
  by code_simp+

section \<open>Auxiliary facts\<close>

lemma foldl_add_sum_list:
  fixes a :: rat
  shows "foldl (\<lambda>acc x. acc + f x) a xs = a + sum_list (map f xs)"
  by (induction xs arbitrary: a) simp_all

lemma sumVatBenefit_sum_list:
  "sumVatBenefit config =
     (if vatPayer config then
        sum_list (map (\<lambda>car. calculateCarVATBenefit car * vatRateMixed config)
                      (carInvestments config))
        + sum_list (map (\<lambda>eq. costNetto eq * 0.23 * vatRateMixed config)
                        (equipmentInvestments config))
      else 0)"
  by (simp add: sumVatBenefit_def foldl_add_sum_list)

lemma sumCarDepreciation_error:
  assumes "\<exists>car\<in>set cars. calculateCarDepreciation car = Inl LeasingParametersRequired"
  shows "sumCarDepreciation acc cars = Inl LeasingParametersRequired"
  using assms
proof (induction cars arbitrary: acc)
  case Nil
  then show ?case by simp
next
  case (Cons car cars)
  show ?case
  proof (cases "calculateCarDepreciation car")
    case (Inl e)
    then show ?thesis by (cases e) simp
  next
    case (Inr d)
    with Cons.prems
    have "\<exists>c\<in>set cars. calculateCarDepreciation c = Inl LeasingParametersRequired"
      by auto
    then show ?thesis using Inr by (simp add: Cons.IH)
  qed
qed

lemma sumCarDepreciation_value:
  assumes "\<forall>car\<in>set cars. \<exists>d. calculateCarDepreciation car = Inr d"
  shows "\<exists>d. sumCarDepreciation acc cars = Inr d"
  using assms
proof (induction cars arbitrary: acc)
  case Nil
  then show ?case by simp
next
  case (Cons car cars)
  then obtain d where d: "calculateCarDepreciation car = Inr d"
    by auto
  from Cons.prems have "\<forall>c\<in>set cars. \<exists>d. calculateCarDepreciation c = Inr d"
    by simp
  then have "\<exists>d'. sumCarDepreciation (acc + d) cars = Inr d'"
    by (rule Cons.IH)
  then show ?case using d by simp
qed

lemma calculateCarDepreciation_absent:
  assumes "leaseParameterAbsent car"
  shows "calculateCarDepreciation car = Inl LeasingParametersRequired"
  using assms
  by (auto simp add: leaseParameterAbsent_def calculateCarDepreciation_def falsy_def Let_def)

lemma calculateCarDepreciation_nonzero:
  assumes "leaseParametersNonZero car"
  shows "\<exists>d. calculateCarDepreciation car = Inr d"
proof -
  have "calculateCarDepreciation car \<noteq> Inl e" for e
    using assms
    by (auto simp add: leaseParametersNonZero_def calculateCarDepreciation_def falsy_def Let_def
        split: option.splits)
  then show ?thesis
    by (cases "calculateCarDepreciation car") auto
qed

text \<open>What the linear and the progressive calculator return once the depreciation loop has
  gone through: the fields of the result that the claims speak about.\<close>

lemma calculateLiniowy_error:
  assumes "sumCarDepreciation 0 (carInvestments config) = Inl e"
  shows "calculateLiniowy config = Inl e"
  using assms by (simp add: calculateLiniowy_def Let_def)

lemma calculateSkala_error:
  assumes "sumCarDepreciation 0 (carInvestments config) = Inl e"
  shows "calculateSkala config = Inl e"
  using assms by (simp add: calculateSkala_def Let_def)

lemma calculateLiniowy_value:
  assumes "sumCarDepreciation 0 (carInvestments config) = Inr d"
  shows "\<exists>res. calculateLiniowy config = Inr res
     \<and> vatBenefit (breakdown res) = sumVatBenefit config
     \<and> netCashInHand res =
         yearlyRevenueNetto config
         - (yearlyFixedCosts config + d + sumEquipmentDepreciation (equipmentInvestments config))
         - max 0 (yearlyRevenueNetto config
                  - (yearlyFixedCosts config + d
                     + sumEquipmentDepreciation (equipmentInvestments config))) * 0.19
         - min (max 0 (yearlyRevenueNetto config
                       - (yearlyFixedCosts config + d
                          + sumEquipmentDepreciation (equipmentInvestments config)))
                * getHealthInsuranceRates (taxYearConfig config) liniowy)
               (getHealthInsuranceLimit (taxYearConfig config))
         - calculateYearlyZUS (zusType config) (taxYearConfig config)
         + sumVatBenefit config"
  using assms by (simp add: calculateLiniowy_def Let_def)

lemma calculateSkala_value:
  assumes "sumCarDepreciation 0 (carInvestments config) = Inr d"
  shows "\<exists>res. calculateSkala config = Inr res
     \<and> vatBenefit (breakdown res) = sumVatBenefit config
     \<and> netCashInHand res =
         yearlyRevenueNetto config
         - (yearlyFixedCosts config + d + sumEquipmentDepreciation (equipmentInvestments config))
         - progressiveTax
             (max 0 (max 0 (yearlyRevenueNetto config
                            - (yearlyFixedCosts config + d
                               + sumEquipmentDepreciation (equipmentInvestments config)))
                     - tax_free_allowance))
         - max 0 (yearlyRevenueNetto config
                  - (yearlyFixedCosts config + d
                     + sumEquipmentDepreciation (equipmentInvestments config)))
           * getHealthInsuranceRates (taxYearConfig config) skala
         - calculateYearlyZUS (zusType config) (taxYearConfig config)
         + sumVatBenefit config"
  using assms by (simp add: calculateSkala_def Let_def)

lemma regime_results_exist:
  assumes "\<forall>car\<in>set (carInvestments config). leaseParametersNonZero car"
  shows "\<exists>l s. calculateLiniowy config = Inr l \<and> calculateSkala config = Inr s"
proof -
  from assms
  have "\<forall>car\<in>set (carInvestments config). \<exists>d. calculateCarDepreciation car = Inr d"
    by (blast intro: calculateCarDepreciation_nonzero)
  then obtain d where "sumCarDepreciation 0 (carInvestments config) = Inr d"
    using sumCarDepreciation_value by blast
  then show ?thesis
    using calculateLiniowy_value calculateSkala_value by blast
qed

text \<open>Monotonicity of the two net-cash expressions in the revenue, for the health
  insurance rates of 2026 (4.9 percent linear, 9 percent progressive).\<close>

lemma liniowy_net_mono:
  fixes r1 r2 T L Z V :: rat
  assumes "r1 \<le> r2"
  shows "r1 - T - max 0 (r1 - T) * 0.19 - min (max 0 (r1 - T) * 0.049) L - Z + V
       \<le> r2 - T - max 0 (r2 - T) * 0.19 - min (max 0 (r2 - T) * 0.049) L - Z + V"
proof -
  define a where "a = max 0 (r1 - T)"
  define b where "b = max 0 (r2 - T)"
  have ab: "a \<le> b" "b - a \<le> r2 - r1"
    using assms by (simp_all add: a_def b_def max_def)
  have "min (b * 0.049) L - min (a * 0.049) L \<le> (b - a) * 0.049"
    using ab(1) by (simp add: min_def)
  then show ?thesis
    unfolding a_def [symmetric] b_def [symmetric] using ab by simp
qed

lemma progressiveTax_slope:
  assumes "x \<le> y"
  shows "progressiveTax y - progressiveTax x \<le> (y - x) * 0.32"
  using assms
  by (auto simp add: progressiveTax_def first_bracket_limit_def first_bracket_rate_def
      second_bracket_rate_def Let_def diff_divide_distrib)

lemma skala_net_mono:
  fixes r1 r2 T Z V :: rat
  assumes "r1 \<le> r2"
  shows "r1 - T - progressiveTax (max 0 (max 0 (r1 - T) - tax_free_allowance))
           - max 0 (r1 - T) * 0.09 - Z + V
       \<le> r2 - T - progressiveTax (max 0 (max 0 (r2 - T) - tax_free_allowance))
           - max 0 (r2 - T) * 0.09 - Z + V"
proof -
  define a where "a = max 0 (r1 - T)"
  define b where "b = max 0 (r2 - T)"
  define x where "x = max 0 (a - tax_free_allowance)"
  define y where "y = max 0 (b - tax_free_allowance)"
  have ab: "a \<le> b" "b - a \<le> r2 - r1"
    using assms by (simp_all add: a_def b_def max_def)
  have xy: "x \<le> y" "y - x \<le> b - a"
    using ab(1) by (simp_all add: x_def y_def max_def)
  have "progressiveTax y - progressiveTax x \<le> (y - x) * 0.32"
    using xy(1) by (rule progressiveTax_slope)
  then show ?thesis
    unfolding a_def [symmetric] b_def [symmetric] x_def [symmetric] y_def [symmetric]
    using ab xy by simp
qed

lemma rates_2026:
  assumes "tc = None \<or> tc = Some cfg_2026"
  shows "getHealthInsuranceRates tc liniowy = 0.049"
    and "getHealthInsuranceRates tc skala = 0.09"
  using assms
  by (auto simp add: getHealthInsuranceRates_def HEALTH_INSURANCE_def cfg_2026_def)

section \<open>Accumulated rounding error\<close>
























section \<open>The end-to-end example\<close>

text \<open>
  C1. For the scenario with revenue 180000, fixed costs 36000, class \<open>maly_plus\<close>, VAT
  payer, \<open>vatRateMixed = 1.0\<close> and no investments, under the 2026 rates (the seeded table
  as well as the built-in constants, and indeed any rate configuration):
  \<open>calculateRyczalt\<close> returns an income tax of 21600; \<open>calculateLiniowy\<close> returns a taxable
  income of 144000 and an income tax of 27360; \<open>calculateSkala\<close> returns a taxable income of
  114000 and an income tax of 13680.
\<close>

theorem end_to_end_example:
  "incomeTax (calculateRyczalt (scenario_2026 tc)) = 21600
   \<and> (\<exists>res. calculateLiniowy (scenario_2026 tc) = Inr res
         \<and> taxableIncome res = 144000 \<and> incomeTax res = 27360)
   \<and> (\<exists>res. calculateSkala (scenario_2026 tc) = Inr res
         \<and> taxableIncome res = 114000 \<and> incomeTax res = 13680)"
  by (simp add: scenario_2026_def calculateRyczalt_def calculateLiniowy_def calculateSkala_def
      RYCZALT_RATES_def sumEquipmentDepreciation_def progressiveTax_def tax_free_allowance_def
      first_bracket_limit_def first_bracket_rate_def Let_def)

section \<open>Health insurance of the flat-rate regime\<close>

text \<open>
  C2, as stated: for every scenario the \<open>healthInsurance\<close> of the flat-rate result equals the
  contribution calculator's flat-rate formula (fourth-quarter wage times nine percent times
  the revenue-tier multiplier). It fails on the example scenario with the seeded 2026 table:
  the calculator charges 6000, the formula gives 630 a month (7560 a year) for a revenue of
  180000, whether taken from the specification's words or from \<open>calculateHealthInsurance\<close>.
\<close>

theorem calculateRyczalt_healthInsurance_counterexample:
  "healthInsurance (calculateRyczalt (scenario_2026 (Some cfg_2026)))
     \<noteq> specFlatRateHealthInsurance (averageWageQ4PreviousYearInput cfg_2026)
         (yearlyRevenueNetto (scenario_2026 (Some cfg_2026)))
   \<and> healthInsurance (calculateRyczalt (scenario_2026 (Some cfg_2026)))
     \<noteq> amount (calculateHealthInsurance (contribution_input_example (Some 180000))
                 DEFAULT_2026_CONFIG 12000)
   \<and> healthInsurance (calculateRyczalt (scenario_2026 (Some cfg_2026)))
     \<noteq> 12 * amount (calculateHealthInsurance (contribution_input_example (Some 180000))
                      DEFAULT_2026_CONFIG 12000)"
  by (simp add: calculateRyczalt_def scenario_2026_def cfg_2026_def
      specFlatRateHealthInsurance_def calculateHealthInsurance_def contribution_input_example_def
      DEFAULT_2026_CONFIG_def truthyAndAtMost_def Let_def)

text \<open>
  C2, amended: for every scenario the \<open>healthInsurance\<close> of the flat-rate result is the fixed
  amount 6000; it depends neither on the rate configuration nor on the revenue.
\<close>

theorem calculateRyczalt_healthInsurance_fixed:
  "healthInsurance (calculateRyczalt config) = 6000"
  by (simp add: calculateRyczalt_def Let_def)

section \<open>Vehicle depreciation\<close>

text \<open>In exact arithmetic the cash branch is \<open>min price ceiling * 0.20 * (13 - m) / 12\<close>,
  and above the ceiling this is \<open>ceiling * 0.20 * ((13 - m) / 12)\<close>.\<close>

lemma calculateCarDepreciation_cash_exact:
  assumes "financingMethod car = cash"
  shows "calculateCarDepreciation car =
           Inr (min (carPriceNetto car) (CAR_DEPRECIATION_LIMITS (engineType car)) * 0.20
                * (13 - monthOfPurchase car) / 12)"
    and "CAR_DEPRECIATION_LIMITS (engineType car) < carPriceNetto car \<Longrightarrow>
           calculateCarDepreciation car =
             Inr (CAR_DEPRECIATION_LIMITS (engineType car) * 0.20
                  * ((13 - monthOfPurchase car) / 12))"
  using assms by (simp_all add: calculateCarDepreciation_def Let_def min_def)

text \<open>
  C3, as stated: for a cash-financed vehicle whose price is above the ceiling, the deduction
  never exceeds \<open>ceiling * 20% * (months remaining / 12)\<close>. In the double arithmetic of the
  program it fails for a combustion vehicle priced 150000 and bought in month 5: the
  deduction is 13333.333333333334, which is above the exact bound \<open>40000 / 3\<close> and above
  the bound evaluated in doubles as the claim writes it, 13333.333333333332.
\<close>

theorem calculateCarDepreciation_bound_counterexample:
  "financingMethod (car_cash_example \<lparr> monthOfPurchase := 5 \<rparr>) = cash
   \<and> CAR_DEPRECIATION_LIMITS (engineType (car_cash_example \<lparr> monthOfPurchase := 5 \<rparr>))
       < carPriceNetto (car_cash_example \<lparr> monthOfPurchase := 5 \<rparr>)
   \<and> calculateCarDepreciation_double (car_cash_example \<lparr> monthOfPurchase := 5 \<rparr>)
       = Inr (7330077518506667 / 549755813888)
   \<and> (100000 :: rat) * 0.20 * ((13 - 5) / 12) < 7330077518506667 / 549755813888
   \<and> mul_double (mul_double 100000 (round_double 0.20)) (div_double (sub_double 13 5) 12)
       < 7330077518506667 / 549755813888"
  by code_simp

text \<open>
  C3, amended: for every cash-financed vehicle bought in month \<open>m\<close> between 1 and 12, the
  program returns \<open>((min price ceiling * 0.20) * (13 - m)) / 12\<close>, each operation rounded
  to a double in this order, where the ceiling is 100000 for combustion, 150000 for plug-in
  hybrid and 225000 for electric vehicles. Hence, when the price exceeds the ceiling, the
  deduction never exceeds \<open>((ceiling * 0.20) * (13 - m)) / 12\<close> evaluated in the same order
  and with the same rounding; and a combustion vehicle priced 150000, paid in cash and bought
  in month 1, yields exactly 20000.
\<close>

theorem calculateCarDepreciation_double_cash:
  assumes "financingMethod car = cash"
    and "1 \<le> monthOfPurchase car" and "monthOfPurchase car \<le> 12"
  shows "calculateCarDepreciation_double car =
           Inr (div_double
                  (mul_double
                     (mul_double (min (carPriceNetto car) (CAR_DEPRECIATION_LIMITS (engineType car)))
                        (round_double 0.20))
                     (sub_double 13 (monthOfPurchase car)))
                  12)
     \<and> CAR_DEPRECIATION_LIMITS combustion = 100000
     \<and> CAR_DEPRECIATION_LIMITS hybrid_plugin = 150000
     \<and> CAR_DEPRECIATION_LIMITS electric = 225000
     \<and> (CAR_DEPRECIATION_LIMITS (engineType car) < carPriceNetto car \<longrightarrow>
          (\<exists>d. calculateCarDepreciation_double car = Inr d
             \<and> d \<le> div_double
                      (mul_double
                         (mul_double (CAR_DEPRECIATION_LIMITS (engineType car)) (round_double 0.20))
                         (sub_double 13 (monthOfPurchase car)))
                      12))
     \<and> calculateCarDepreciation_double
          \<lparr> name = n, carPriceNetto = 150000, engineType = combustion,
            financingMethod = cash, usageType = u, leasingInitialPaymentPercent = lp,
            leasingMonths = lm, leasingBuyoutPercent = lb, monthOfPurchase = 1 \<rparr>
        = Inr 20000"
proof -
  have formula: "calculateCarDepreciation_double car =
      Inr (div_double
             (mul_double
                (mul_double (min (carPriceNetto car) (CAR_DEPRECIATION_LIMITS (engineType car)))
                   (round_double 0.20))
                (sub_double 13 (monthOfPurchase car)))
             12)"
    using assms(1) by (simp add: calculateCarDepreciation_double_def Let_def)
  have ceilings: "CAR_DEPRECIATION_LIMITS combustion = 100000"
    "CAR_DEPRECIATION_LIMITS hybrid_plugin = 150000"
    "CAR_DEPRECIATION_LIMITS electric = 225000"
    by (simp_all add: CAR_DEPRECIATION_LIMITS_def)
  have bound: "\<exists>d. calculateCarDepreciation_double car = Inr d
      \<and> d \<le> div_double
               (mul_double
                  (mul_double (CAR_DEPRECIATION_LIMITS (engineType car)) (round_double 0.20))
                  (sub_double 13 (monthOfPurchase car)))
               12"
    if above: "CAR_DEPRECIATION_LIMITS (engineType car) < carPriceNetto car"
  proof -
    from above
    have "min (carPriceNetto car) (CAR_DEPRECIATION_LIMITS (engineType car))
        = CAR_DEPRECIATION_LIMITS (engineType car)"
      by simp
    with formula show ?thesis
      by simp
  qed
  have "calculateCarDepreciation_double
          \<lparr> name = n, carPriceNetto = 150000, engineType = combustion,
            financingMethod = cash, usageType = u, leasingInitialPaymentPercent = lp,
            leasingMonths = lm, leasingBuyoutPercent = lb, monthOfPurchase = 1 \<rparr>
        = Inr (div_double (mul_double (mul_double 100000 (round_double 0.20)) (sub_double 13 1))
                 12)"
    by (simp add: calculateCarDepreciation_double_def CAR_DEPRECIATION_LIMITS_def Let_def)
  also have "div_double (mul_double (mul_double 100000 (round_double 0.20)) (sub_double 13 1)) 12
      = 20000"
    by code_simp
  finally have concrete: "calculateCarDepreciation_double
          \<lparr> name = n, carPriceNetto = 150000, engineType = combustion,
            financingMethod = cash, usageType = u, leasingInitialPaymentPercent = lp,
            leasingMonths = lm, leasingBuyoutPercent = lb, monthOfPurchase = 1 \<rparr>
        = Inr 20000" .
  from formula ceilings bound concrete show ?thesis
    by blast
qed

theorem calculateCarDepreciation_double_cash_witness:
  "financingMethod (car_cash_example \<lparr> monthOfPurchase := 5 \<rparr>) = cash
   \<and> 1 \<le> monthOfPurchase (car_cash_example \<lparr> monthOfPurchase := 5 \<rparr>)
   \<and> monthOfPurchase (car_cash_example \<lparr> monthOfPurchase := 5 \<rparr>) \<le> 12
   \<and> CAR_DEPRECIATION_LIMITS (engineType (car_cash_example \<lparr> monthOfPurchase := 5 \<rparr>))
       < carPriceNetto (car_cash_example \<lparr> monthOfPurchase := 5 \<rparr>)
   \<and> calculateCarDepreciation_double (car_cash_example \<lparr> monthOfPurchase := 5 \<rparr>)
       = Inr (div_double (mul_double (mul_double 100000 (round_double 0.20)) (sub_double 13 5))
                12)
   \<and> div_double (mul_double (mul_double 100000 (round_double 0.20)) (sub_double 13 5)) 12
       = 7330077518506667 / 549755813888"
proof -
  have "div_double (mul_double (mul_double 100000 (round_double 0.20)) (sub_double 13 5)) 12
      = 7330077518506667 / 549755813888"
    by code_simp
  then show ?thesis
    using calculateCarDepreciation_double_cash [of "car_cash_example \<lparr> monthOfPurchase := 5 \<rparr>"]
    by (simp add: car_cash_example_def CAR_DEPRECIATION_LIMITS_def)
qed

text \<open>
  C4. For every lease-financed vehicle with a positive price, bought in month \<open>m\<close> between
  1 and 12, with a lease term \<open>t\<close> of at least one month and positive down-payment and buyout
  percentages \<open>p\<close> and \<open>b\<close> (the fractions are \<open>p / 100\<close> and \<open>b / 100\<close>),
  \<open>calculateCarDepreciation\<close> returns
  \<open>downPayment * r + (capitalPortion / t) * M * r + capitalPortion * 0.05 * M / 12\<close>,
  where \<open>downPayment = price * (p / 100)\<close>, \<open>buyout = price * (b / 100)\<close>,
  \<open>capitalPortion = price - downPayment - buyout\<close>, \<open>r = min 1 (ceiling / price)\<close> and
  \<open>M = min (13 - m) t\<close>. The interest component is not multiplied by \<open>r\<close>.
\<close>

theorem calculateCarDepreciation_leasing:
  assumes "financingMethod car = leasing"
    and "leasingMonths car = Some t" and "1 \<le> t"
    and "leasingInitialPaymentPercent car = Some p" and "0 < p"
    and "leasingBuyoutPercent car = Some b" and "0 < b"
    and "0 < carPriceNetto car"
    and "1 \<le> monthOfPurchase car" and "monthOfPurchase car \<le> 12"
  shows "calculateCarDepreciation car =
     (let price = carPriceNetto car;
          downPayment = price * (p / 100);
          buyout = price * (b / 100);
          capitalPortion = price - downPayment - buyout;
          r = min 1 (CAR_DEPRECIATION_LIMITS (engineType car) / price);
          M = min (13 - monthOfPurchase car) t
      in Inr (downPayment * r + (capitalPortion / t) * M * r + capitalPortion * 0.05 * M / 12))"
  using assms
  by (simp add: calculateCarDepreciation_def falsy_def present_def Let_def)

theorem calculateCarDepreciation_leasing_witness:
  "financingMethod car_lease_example = leasing
   \<and> leasingMonths car_lease_example = Some 48 \<and> (1 :: rat) \<le> 48
   \<and> leasingInitialPaymentPercent car_lease_example = Some 10 \<and> (0 :: rat) < 10
   \<and> leasingBuyoutPercent car_lease_example = Some 1 \<and> (0 :: rat) < 1
   \<and> 0 < carPriceNetto car_lease_example
   \<and> 1 \<le> monthOfPurchase car_lease_example \<and> monthOfPurchase car_lease_example \<le> 12
   \<and> calculateCarDepreciation car_lease_example = Inr 25575"
  using calculateCarDepreciation_leasing [of car_lease_example 48 10 1]
  by (simp add: car_lease_example_def CAR_DEPRECIATION_LIMITS_def Let_def)

section \<open>Failure of a scenario\<close>

text \<open>
  C5, as stated: a scenario with a lease-financed vehicle that lacks a lease parameter makes
  \<open>compareAll\<close>, \<open>calculateLiniowy\<close> and \<open>calculateSkala\<close> fail, and no error is raised on
  a scenario whose lease-financed vehicles all carry the three parameters. The second half
  fails: a lease of zero months carries all three parameters and \<open>compareAll\<close> still fails.
\<close>

theorem compareAll_present_parameters_counterexample:
  "leaseParametersPresent (car_lease_example \<lparr> leasingMonths := Some 0 \<rparr>)
   \<and> compareAll (scenario_with_cars [car_lease_example \<lparr> leasingMonths := Some 0 \<rparr>])
       = Inl LeasingParametersRequired"
  by (simp add: leaseParametersPresent_def car_lease_example_def scenario_with_cars_def
      scenario_2026_def compareAll_def calculateLiniowy_def calculateCarDepreciation_def
      falsy_def Let_def)

text \<open>
  C5, amended: for every scenario containing a lease-financed vehicle for which the lease
  term, the down-payment percentage or the buyout percentage is absent, \<open>compareAll\<close>,
  \<open>calculateLiniowy\<close> and \<open>calculateSkala\<close> fail with the leasing-parameters error and
  return no result; and on every scenario whose lease-financed vehicles all carry the three
  parameters with values other than zero, none of the three raises an error. (The error is
  the only one the calculator has.)
\<close>

theorem compareAll_leasing_parameters:
  "((\<exists>car\<in>set (carInvestments config). leaseParameterAbsent car) \<longrightarrow>
       compareAll config = Inl LeasingParametersRequired
     \<and> calculateLiniowy config = Inl LeasingParametersRequired
     \<and> calculateSkala config = Inl LeasingParametersRequired)
   \<and> ((\<forall>car\<in>set (carInvestments config). leaseParametersNonZero car) \<longrightarrow>
       (\<exists>res. compareAll config = Inr res)
     \<and> (\<exists>res. calculateLiniowy config = Inr res)
     \<and> (\<exists>res. calculateSkala config = Inr res))"
proof (intro conjI impI)
  assume "\<exists>car\<in>set (carInvestments config). leaseParameterAbsent car"
  then have "\<exists>car\<in>set (carInvestments config).
      calculateCarDepreciation car = Inl LeasingParametersRequired"
    by (blast intro: calculateCarDepreciation_absent)
  then have loop: "sumCarDepreciation 0 (carInvestments config) = Inl LeasingParametersRequired"
    by (rule sumCarDepreciation_error)
  then show liniowy_fails: "calculateLiniowy config = Inl LeasingParametersRequired"
    by (rule calculateLiniowy_error)
  from loop show "calculateSkala config = Inl LeasingParametersRequired"
    by (rule calculateSkala_error)
  from liniowy_fails show "compareAll config = Inl LeasingParametersRequired"
    by (simp add: compareAll_def Let_def)
next
  assume "\<forall>car\<in>set (carInvestments config). leaseParametersNonZero car"
  then have "\<forall>car\<in>set (carInvestments config). \<exists>d. calculateCarDepreciation car = Inr d"
    by (blast intro: calculateCarDepreciation_nonzero)
  then obtain d where loop: "sumCarDepreciation 0 (carInvestments config) = Inr d"
    using sumCarDepreciation_value by blast
  from calculateLiniowy_value [OF loop]
  obtain l where l: "calculateLiniowy config = Inr l"
    by blast
  from calculateSkala_value [OF loop]
  obtain s where s: "calculateSkala config = Inr s"
    by blast
  from l show "\<exists>res. calculateLiniowy config = Inr res"
    by blast
  from s show "\<exists>res. calculateSkala config = Inr res"
    by blast
  from l s show "\<exists>res. compareAll config = Inr res"
    by (simp add: compareAll_def Let_def)
qed

theorem compareAll_leasing_parameters_witness:
  "leaseParameterAbsent (car_lease_example \<lparr> leasingBuyoutPercent := None \<rparr>)
   \<and> compareAll (scenario_with_cars
        [car_cash_example, car_lease_example \<lparr> leasingBuyoutPercent := None \<rparr>])
       = Inl LeasingParametersRequired
   \<and> calculateLiniowy (scenario_with_cars
        [car_cash_example, car_lease_example \<lparr> leasingBuyoutPercent := None \<rparr>])
       = Inl LeasingParametersRequired
   \<and> calculateSkala (scenario_with_cars
        [car_cash_example, car_lease_example \<lparr> leasingBuyoutPercent := None \<rparr>])
       = Inl LeasingParametersRequired
   \<and> leaseParametersNonZero car_cash_example
   \<and> leaseParametersNonZero car_lease_example
   \<and> (\<exists>res. compareAll (scenario_with_cars [car_cash_example, car_lease_example]) = Inr res)
   \<and> (\<exists>res. calculateLiniowy (scenario_with_cars [car_cash_example, car_lease_example])
         = Inr res)
   \<and> (\<exists>res. calculateSkala (scenario_with_cars [car_cash_example, car_lease_example])
         = Inr res)"
proof -
  have absent: "leaseParameterAbsent (car_lease_example \<lparr> leasingBuyoutPercent := None \<rparr>)"
    by (simp add: leaseParameterAbsent_def car_lease_example_def)
  have nonzero: "leaseParametersNonZero car_cash_example"
    "leaseParametersNonZero car_lease_example"
    by (simp_all add: leaseParametersNonZero_def car_cash_example_def car_lease_example_def)
  show ?thesis
    using absent nonzero
      compareAll_leasing_parameters [of "scenario_with_cars
        [car_cash_example, car_lease_example \<lparr> leasingBuyoutPercent := None \<rparr>]"]
      compareAll_leasing_parameters [of "scenario_with_cars
        [car_cash_example, car_lease_example]"]
    by (simp add: scenario_with_cars_def)
qed

text \<open>
  C10. A lease-financed vehicle whose lease term, down-payment percentage or buyout
  percentage is present with the value zero is treated like one where the parameter is
  absent: \<open>calculateCarDepreciation\<close> fails with the leasing-parameters error.
\<close>

theorem calculateCarDepreciation_zero_parameter:
  assumes "financingMethod car = leasing"
    and "leasingMonths car = Some 0 \<or> leasingInitialPaymentPercent car = Some 0
         \<or> leasingBuyoutPercent car = Some 0"
  shows "calculateCarDepreciation car = Inl LeasingParametersRequired
     \<and> calculateCarDepreciation (car \<lparr> leasingMonths := None \<rparr>) = Inl LeasingParametersRequired
     \<and> calculateCarDepreciation (car \<lparr> leasingInitialPaymentPercent := None \<rparr>)
         = Inl LeasingParametersRequired
     \<and> calculateCarDepreciation (car \<lparr> leasingBuyoutPercent := None \<rparr>)
         = Inl LeasingParametersRequired"
  using assms
  by (auto simp add: calculateCarDepreciation_def falsy_def Let_def)

theorem calculateCarDepreciation_zero_parameter_witness:
  "financingMethod (car_lease_example \<lparr> leasingInitialPaymentPercent := Some 0 \<rparr>) = leasing
   \<and> leasingInitialPaymentPercent (car_lease_example \<lparr> leasingInitialPaymentPercent := Some 0 \<rparr>)
       = Some 0
   \<and> calculateCarDepreciation (car_lease_example \<lparr> leasingInitialPaymentPercent := Some 0 \<rparr>)
       = Inl LeasingParametersRequired"
  using calculateCarDepreciation_zero_parameter
    [of "car_lease_example \<lparr> leasingInitialPaymentPercent := Some 0 \<rparr>"]
  by (simp add: car_lease_example_def)

section \<open>Monotonicity in the revenue\<close>

text \<open>In exact arithmetic, that is without rounding each operation to a double, the net
  cash of each regime does not decrease when the revenue grows.\<close>

lemma netCashInHand_exact_monotone:
  assumes "r1 \<le> r2"
    and "taxYearConfig config = None \<or> taxYearConfig config = Some cfg_2026"
  shows "netCashInHand (calculateRyczalt (config \<lparr> yearlyRevenueNetto := r1 \<rparr>))
           \<le> netCashInHand (calculateRyczalt (config \<lparr> yearlyRevenueNetto := r2 \<rparr>))
     \<and> (\<forall>a. calculateLiniowy (config \<lparr> yearlyRevenueNetto := r1 \<rparr>) = Inr a \<longrightarrow>
            (\<exists>b. calculateLiniowy (config \<lparr> yearlyRevenueNetto := r2 \<rparr>) = Inr b
                 \<and> netCashInHand a \<le> netCashInHand b))
     \<and> (\<forall>a. calculateSkala (config \<lparr> yearlyRevenueNetto := r1 \<rparr>) = Inr a \<longrightarrow>
            (\<exists>b. calculateSkala (config \<lparr> yearlyRevenueNetto := r2 \<rparr>) = Inr b
                 \<and> netCashInHand a \<le> netCashInHand b))"
proof (intro conjI allI impI)
  show "netCashInHand (calculateRyczalt (config \<lparr> yearlyRevenueNetto := r1 \<rparr>))
      \<le> netCashInHand (calculateRyczalt (config \<lparr> yearlyRevenueNetto := r2 \<rparr>))"
    using assms(1)
    by (simp add: calculateRyczalt_def sumVatBenefit_def RYCZALT_RATES_def Let_def)
next
  fix a
  let ?c1 = "config \<lparr> yearlyRevenueNetto := r1 \<rparr>"
  let ?c2 = "config \<lparr> yearlyRevenueNetto := r2 \<rparr>"
  assume a: "calculateLiniowy ?c1 = Inr a"
  have "sumCarDepreciation 0 (carInvestments ?c1) \<noteq> Inl e" for e
    using a calculateLiniowy_error [of ?c1 e] by auto
  then obtain d where d: "sumCarDepreciation 0 (carInvestments config) = Inr d"
    by (cases "sumCarDepreciation 0 (carInvestments config)") auto
  from calculateLiniowy_value [of ?c1 d] d a
  have net_a: "netCashInHand a =
      r1 - (yearlyFixedCosts config + d + sumEquipmentDepreciation (equipmentInvestments config))
      - max 0 (r1 - (yearlyFixedCosts config + d
                     + sumEquipmentDepreciation (equipmentInvestments config))) * 0.19
      - min (max 0 (r1 - (yearlyFixedCosts config + d
                          + sumEquipmentDepreciation (equipmentInvestments config))) * 0.049)
            (getHealthInsuranceLimit (taxYearConfig config))
      - calculateYearlyZUS (zusType config) (taxYearConfig config)
      + sumVatBenefit config"
    by (auto simp add: rates_2026 [OF assms(2)] sumVatBenefit_def)
  from calculateLiniowy_value [of ?c2 d] d
  obtain b where b: "calculateLiniowy ?c2 = Inr b"
    and net_b: "netCashInHand b =
      r2 - (yearlyFixedCosts config + d + sumEquipmentDepreciation (equipmentInvestments config))
      - max 0 (r2 - (yearlyFixedCosts config + d
                     + sumEquipmentDepreciation (equipmentInvestments config))) * 0.19
      - min (max 0 (r2 - (yearlyFixedCosts config + d
                          + sumEquipmentDepreciation (equipmentInvestments config))) * 0.049)
            (getHealthInsuranceLimit (taxYearConfig config))
      - calculateYearlyZUS (zusType config) (taxYearConfig config)
      + sumVatBenefit config"
    by (auto simp add: rates_2026 [OF assms(2)] sumVatBenefit_def)
  have "netCashInHand a \<le> netCashInHand b"
    unfolding net_a net_b using assms(1) by (rule liniowy_net_mono)
  with b show "\<exists>b. calculateLiniowy ?c2 = Inr b \<and> netCashInHand a \<le> netCashInHand b"
    by blast
next
  fix a
  let ?c1 = "config \<lparr> yearlyRevenueNetto := r1 \<rparr>"
  let ?c2 = "config \<lparr> yearlyRevenueNetto := r2 \<rparr>"
  assume a: "calculateSkala ?c1 = Inr a"
  have "sumCarDepreciation 0 (carInvestments ?c1) \<noteq> Inl e" for e
    using a calculateSkala_error [of ?c1 e] by auto
  then obtain d where d: "sumCarDepreciation 0 (carInvestments config) = Inr d"
    by (cases "sumCarDepreciation 0 (carInvestments config)") auto
  from calculateSkala_value [of ?c1 d] d a
  have net_a: "netCashInHand a =
      r1 - (yearlyFixedCosts config + d + sumEquipmentDepreciation (equipmentInvestments config))
      - progressiveTax
          (max 0 (max 0 (r1 - (yearlyFixedCosts config + d
                               + sumEquipmentDepreciation (equipmentInvestments config)))
                  - tax_free_allowance))
      - max 0 (r1 - (yearlyFixedCosts config + d
                     + sumEquipmentDepreciation (equipmentInvestments config))) * 0.09
      - calculateYearlyZUS (zusType config) (taxYearConfig config)
      + sumVatBenefit config"
    by (auto simp add: rates_2026 [OF assms(2)] sumVatBenefit_def)
  from calculateSkala_value [of ?c2 d] d
  obtain b where b: "calculateSkala ?c2 = Inr b"
    and net_b: "netCashInHand b =
      r2 - (yearlyFixedCosts config + d + sumEquipmentDepreciation (equipmentInvestments config))
      - progressiveTax
          (max 0 (max 0 (r2 - (yearlyFixedCosts config + d
                               + sumEquipmentDepreciation (equipmentInvestments config)))
                  - tax_free_allowance))
      - max 0 (r2 - (yearlyFixedCosts config + d
                     + sumEquipmentDepreciation (equipmentInvestments config))) * 0.09
      - calculateYearlyZUS (zusType config) (taxYearConfig config)
      + sumVatBenefit config"
    by (auto simp add: rates_2026 [OF assms(2)] sumVatBenefit_def)
  have "netCashInHand a \<le> netCashInHand b"
    unfolding net_a net_b using assms(1) by (rule skala_net_mono)
  with b show "\<exists>b. calculateSkala ?c2 = Inr b \<and> netCashInHand a \<le> netCashInHand b"
    by blast
qed










section \<open>Health insurance in the contribution calculator\<close>

text \<open>
  C7, as stated: with the flat-rate form, every cumulative revenue of at most 60000,
  including 0 and an absent value, gives the amount \<open>wage * 0.09 * 0.6\<close>. It fails for an
  absent revenue: with the default 2026 configuration the amount is \<open>7000 * 0.09 * 1.8\<close>.
\<close>

theorem calculateHealthInsurance_absent_revenue_counterexample:
  "taxationFormInput (contribution_input_example None) = ryczalt
   \<and> yearlyRevenueToDate (contribution_input_example None) = None
   \<and> amount (calculateHealthInsurance (contribution_input_example None) DEFAULT_2026_CONFIG 12000)
       = 7000 * 0.09 * 1.8
   \<and> amount (calculateHealthInsurance (contribution_input_example None) DEFAULT_2026_CONFIG 12000)
       \<noteq> averageWageQ4PreviousYear DEFAULT_2026_CONFIG * 0.09 * 0.6"
  by (simp add: contribution_input_example_def calculateHealthInsurance_def
      DEFAULT_2026_CONFIG_def truthyAndAtMost_def Let_def)

text \<open>A revenue of zero takes the same path as an absent one: the guard of both tier tests
  is false for \<open>0\<close>, and the highest multiplier applies.\<close>

lemma calculateHealthInsurance_zero_revenue:
  "amount (calculateHealthInsurance (contribution_input_example (Some 0)) DEFAULT_2026_CONFIG 12000)
     = 7000 * 0.09 * 1.8"
  by (simp add: contribution_input_example_def calculateHealthInsurance_def
      DEFAULT_2026_CONFIG_def truthyAndAtMost_def Let_def)

text \<open>
  C7, amended: with the flat-rate form, every cumulative revenue that is present, other
  than zero and at most 60000 gives the amount \<open>wage * 0.09 * 0.6\<close>, the wage being the
  fourth-quarter average wage of the configuration; when the revenue is absent the amount is
  \<open>wage * 0.09 * 1.8\<close>.
\<close>

theorem calculateHealthInsurance_ryczalt_lowest_tier:
  assumes "taxationFormInput input = ryczalt"
  shows "(\<forall>y. yearlyRevenueToDate input = Some y \<and> y \<noteq> 0 \<and> y \<le> 60000 \<longrightarrow>
            amount (calculateHealthInsurance input config monthlyIncome)
              = averageWageQ4PreviousYear config * 0.09 * 0.6)
     \<and> (yearlyRevenueToDate input = None \<longrightarrow>
            amount (calculateHealthInsurance input config monthlyIncome)
              = averageWageQ4PreviousYear config * 0.09 * 1.8)"
  using assms
  by (simp add: calculateHealthInsurance_def truthyAndAtMost_def Let_def)

theorem calculateHealthInsurance_ryczalt_lowest_tier_witness:
  "taxationFormInput (contribution_input_example (Some 50000)) = ryczalt
   \<and> yearlyRevenueToDate (contribution_input_example (Some 50000)) = Some 50000
   \<and> (50000 :: rat) \<noteq> 0 \<and> (50000 :: rat) \<le> 60000
   \<and> amount (calculateHealthInsurance (contribution_input_example (Some 50000))
               DEFAULT_2026_CONFIG 12000) = 378
   \<and> taxationFormInput (contribution_input_example None) = ryczalt
   \<and> yearlyRevenueToDate (contribution_input_example None) = None
   \<and> amount (calculateHealthInsurance (contribution_input_example None)
               DEFAULT_2026_CONFIG 12000) = 1134"
  using calculateHealthInsurance_ryczalt_lowest_tier
      [of "contribution_input_example (Some 50000)" DEFAULT_2026_CONFIG 12000]
    calculateHealthInsurance_ryczalt_lowest_tier
      [of "contribution_input_example None" DEFAULT_2026_CONFIG 12000]
  by (simp add: contribution_input_example_def DEFAULT_2026_CONFIG_def)

section \<open>Recovered VAT\<close>

text \<open>
  C9. \<open>calculateCarVATBenefit\<close> returns \<open>carPriceNetto * 0.23\<close> for full-business usage and
  \<open>carPriceNetto * 0.23 * 0.5\<close> for mixed usage, whatever the financing method and the
  engine class. In the result of every regime, \<open>vatBenefit\<close> of the breakdown is, for a VAT
  payer, the sum over the vehicles of \<open>calculateCarVATBenefit car * vatRateMixed\<close> plus the sum
  over the equipment of \<open>costNetto * 0.23 * vatRateMixed\<close>, and 0 otherwise.
\<close>

theorem vatBenefit_formula:
  "(usageType car = full_business \<longrightarrow> calculateCarVATBenefit car = carPriceNetto car * 0.23)
   \<and> (usageType car = mixed \<longrightarrow> calculateCarVATBenefit car = carPriceNetto car * 0.23 * 0.5)
   \<and> calculateCarVATBenefit (car \<lparr> financingMethod := f, engineType := e \<rparr>)
       = calculateCarVATBenefit car
   \<and> vatBenefit (breakdown (calculateRyczalt config)) =
       (if vatPayer config then
          sum_list (map (\<lambda>car. calculateCarVATBenefit car * vatRateMixed config)
                        (carInvestments config))
          + sum_list (map (\<lambda>eq. costNetto eq * 0.23 * vatRateMixed config)
                          (equipmentInvestments config))
        else 0)
   \<and> (\<forall>res. calculateLiniowy config = Inr res \<longrightarrow>
         vatBenefit (breakdown res) =
           (if vatPayer config then
              sum_list (map (\<lambda>car. calculateCarVATBenefit car * vatRateMixed config)
                            (carInvestments config))
              + sum_list (map (\<lambda>eq. costNetto eq * 0.23 * vatRateMixed config)
                              (equipmentInvestments config))
            else 0))
   \<and> (\<forall>res. calculateSkala config = Inr res \<longrightarrow>
         vatBenefit (breakdown res) =
           (if vatPayer config then
              sum_list (map (\<lambda>car. calculateCarVATBenefit car * vatRateMixed config)
                            (carInvestments config))
              + sum_list (map (\<lambda>eq. costNetto eq * 0.23 * vatRateMixed config)
                              (equipmentInvestments config))
            else 0))"
proof (intro conjI allI impI)
  assume "usageType car = full_business"
  then show "calculateCarVATBenefit car = carPriceNetto car * 0.23"
    by (simp add: calculateCarVATBenefit_def Let_def)
next
  assume "usageType car = mixed"
  then show "calculateCarVATBenefit car = carPriceNetto car * 0.23 * 0.5"
    by (simp add: calculateCarVATBenefit_def Let_def)
next
  show "calculateCarVATBenefit (car \<lparr> financingMethod := f, engineType := e \<rparr>)
      = calculateCarVATBenefit car"
    by (simp add: calculateCarVATBenefit_def)
next
  have "vatBenefit (breakdown (calculateRyczalt config)) = sumVatBenefit config"
    by (simp add: calculateRyczalt_def Let_def)
  then show "vatBenefit (breakdown (calculateRyczalt config)) =
       (if vatPayer config then
          sum_list (map (\<lambda>car. calculateCarVATBenefit car * vatRateMixed config)
                        (carInvestments config))
          + sum_list (map (\<lambda>eq. costNetto eq * 0.23 * vatRateMixed config)
                          (equipmentInvestments config))
        else 0)"
    by (simp only: sumVatBenefit_sum_list)
next
  fix res
  assume res: "calculateLiniowy config = Inr res"
  have "sumCarDepreciation 0 (carInvestments config) \<noteq> Inl e" for e
    using res calculateLiniowy_error [of config e] by auto
  then obtain d where "sumCarDepreciation 0 (carInvestments config) = Inr d"
    by (cases "sumCarDepreciation 0 (carInvestments config)") auto
  from calculateLiniowy_value [OF this] res
  have "vatBenefit (breakdown res) = sumVatBenefit config"
    by auto
  then show "vatBenefit (breakdown res) =
       (if vatPayer config then
          sum_list (map (\<lambda>car. calculateCarVATBenefit car * vatRateMixed config)
                        (carInvestments config))
          + sum_list (map (\<lambda>eq. costNetto eq * 0.23 * vatRateMixed config)
                          (equipmentInvestments config))
        else 0)"
    by (simp only: sumVatBenefit_sum_list)
next
  fix res
  assume res: "calculateSkala config = Inr res"
  have "sumCarDepreciation 0 (carInvestments config) \<noteq> Inl e" for e
    using res calculateSkala_error [of config e] by auto
  then obtain d where "sumCarDepreciation 0 (carInvestments config) = Inr d"
    by (cases "sumCarDepreciation 0 (carInvestments config)") auto
  from calculateSkala_value [OF this] res
  have "vatBenefit (breakdown res) = sumVatBenefit config"
    by auto
  then show "vatBenefit (breakdown res) =
       (if vatPayer config then
          sum_list (map (\<lambda>car. calculateCarVATBenefit car * vatRateMixed config)
                        (carInvestments config))
          + sum_list (map (\<lambda>eq. costNetto eq * 0.23 * vatRateMixed config)
                          (equipmentInvestments config))
        else 0)"
    by (simp only: sumVatBenefit_sum_list)
qed

theorem vatBenefit_formula_witness:
  "usageType car_lease_example = full_business
   \<and> calculateCarVATBenefit car_lease_example = 46000
   \<and> usageType car_cash_example = mixed
   \<and> calculateCarVATBenefit car_cash_example = 17250
   \<and> vatPayer (scenario_with_cars [car_cash_example, car_lease_example])
   \<and> vatBenefit (breakdown (calculateRyczalt
         (scenario_with_cars [car_cash_example, car_lease_example]))) = 65550
   \<and> (\<exists>res. calculateLiniowy (scenario_with_cars [car_cash_example, car_lease_example])
           = Inr res \<and> vatBenefit (breakdown res) = 65550)
   \<and> (\<exists>res. calculateSkala (scenario_with_cars [car_cash_example, car_lease_example])
           = Inr res \<and> vatBenefit (breakdown res) = 65550)"
proof -
  let ?config = "scenario_with_cars [car_cash_example, car_lease_example]"
  have "leaseParametersNonZero car_cash_example" "leaseParametersNonZero car_lease_example"
    by (simp_all add: leaseParametersNonZero_def car_cash_example_def car_lease_example_def)
  then have "\<forall>car\<in>set (carInvestments ?config). leaseParametersNonZero car"
    by (simp add: scenario_with_cars_def)
  then obtain l s where results:
    "calculateLiniowy ?config = Inr l" "calculateSkala ?config = Inr s"
    using regime_results_exist by blast
  show ?thesis
    using results
      vatBenefit_formula [where car = car_lease_example and config = ?config]
      vatBenefit_formula [where car = car_cash_example and config = ?config]
    by (simp add: scenario_with_cars_def scenario_2026_def car_cash_example_def
        car_lease_example_def laptop_example_def)
qed

section \<open>Yearly social insurance\<close>

text \<open>
  C8. \<^verbatim>\<open>calculateYearlyZUS\<close> does not depend on the rate configuration it is given: for every
  contribution class and any two configurations, present or absent, the results agree. The
  value is the fixed monthly tier times twelve: 0 for \<open>ulga_na_start\<close>, 7800 for
  \<open>preferencyjny\<close>, 20400 for \<open>maly_plus\<close> and 22800 for \<open>duzy\<close>.
\<close>

theorem calculateYearlyZUS_config_independent:
  "calculateYearlyZUS z c1 = calculateYearlyZUS z c2
   \<and> calculateYearlyZUS ulga_na_start c = 0
   \<and> calculateYearlyZUS preferencyjny c = 7800
   \<and> calculateYearlyZUS maly_plus c = 20400
   \<and> calculateYearlyZUS duzy c = 22800"
  by (simp add: calculateYearlyZUS_def getZUSMonthly_def)

end
